theory Spec2Isabelle
  imports Complex_Main "HOL-Library.Multiset"
begin

section \<open>Weather data pipeline: ingestion, aggregation and duplicate removal\<close>

text \<open>
  A shallow embedding of \<^verbatim>\<open>load_data.py\<close> and \<^verbatim>\<open>calculate_statistics.py\<close>.
  The database tables are lists of rows, the session's pending objects are a list that a
  commit appends to the table, and every exception of the Python code is a value of the
  type \<open>error\<close>. Text is a list of characters with code points below 256. The SQL that
  SQLAlchemy emits is modelled with SQL's three-valued logic: a comparison with NULL is
  unknown, and a join keeps a pair of rows only when its condition is true. What the
  sources leave to the store (its floating-point arithmetic and the order of its results)
  is a parameter of the model.
\<close>

subsection \<open>Python text primitives\<close>

datatype error = IndexError | ValueError | OSError

text \<open>\<^verbatim>\<open>str.isspace\<close> on the code points below 256.\<close>

definition py_isspace :: "char \<Rightarrow> bool" where
  "py_isspace c = (c \<in> set [CHR 0x09, CHR 0x0A, CHR 0x0B, CHR 0x0C, CHR 0x0D,
                          CHR 0x1C, CHR 0x1D, CHR 0x1E, CHR 0x1F, CHR 0x20,
                          CHR 0x85, CHR 0xA0])"

text \<open>\<^verbatim>\<open>str.strip()\<close>: leading and trailing whitespace removed.\<close>

definition py_strip :: "string \<Rightarrow> string" where
  "py_strip s = rev (dropWhile py_isspace (rev (dropWhile py_isspace s)))"

text \<open>\<^verbatim>\<open>str.split(sep)\<close> for a one-character separator; never the empty list.\<close>

fun py_split :: "char \<Rightarrow> string \<Rightarrow> string list" where
  "py_split sep [] = [[]]"
| "py_split sep (c # cs) =
     (if c = sep then [] # py_split sep cs
      else (case py_split sep cs of
              [] \<Rightarrow> [[c]]
            | w # ws \<Rightarrow> (c # w) # ws))"




text \<open>
  \<^verbatim>\<open>int(s)\<close> on text: surrounding whitespace is dropped, one sign is allowed, then
  come decimal digits, where single underscores may stand between two digits. Anything
  else raises ValueError. (The interpreter's limit on the number of digits is not
  modelled.)
\<close>

definition is_digit :: "char \<Rightarrow> bool" where
  "is_digit c = (c \<in> set ''0123456789'')"

definition digit_val :: "char \<Rightarrow> nat" where
  "digit_val c = of_char c - 48"

fun parse_digits :: "nat \<Rightarrow> bool \<Rightarrow> string \<Rightarrow> nat option" where
  "parse_digits acc prev [] = (if prev then Some acc else None)"
| "parse_digits acc prev (c # cs) =
     (if is_digit c then parse_digits (10 * acc + digit_val c) True cs
      else if c = CHR ''_'' \<and> prev then parse_digits acc False cs
      else None)"

definition py_int :: "string \<Rightarrow> error + int" where
  "py_int s =
     (let t = py_strip s;
          (neg, body) = (case t of
                           [] \<Rightarrow> (False, t)
                         | c # r \<Rightarrow> (if c = CHR ''-'' then (True, r)
                                    else if c = CHR ''+'' then (False, r)
                                    else (False, t)))
      in case parse_digits 0 False body of
           None \<Rightarrow> Inl ValueError
         | Some n \<Rightarrow> Inr (if neg then - int n else int n))"

subsection \<open>The tables\<close>

text \<open>
  Modelled from the spec: \<^verbatim>\<open>models.py\<close> is not part of the sources. A WeatherRecord
  has the fields the loader sets; the numeric ones are nullable. A WeatherStats row has
  the fields the aggregation sets, of which the three aggregates are nullable, and the
  surrogate id (\<open>stats_id\<close>) that the store assigns at insert time from an increasing counter.
  Timestamps are natural numbers (ticks of the clock). Aggregates are rationals, as every
  finite floating-point value is one.
\<close>

record WeatherRecord =
  date :: string
  max_temp :: "int option"
  min_temp :: "int option"
  precipitation :: "int option"
  weather_station_id :: string
  ingestion_timestamp :: nat

record WeatherStats =
  stats_id :: nat
  year :: int
  station :: string
  avg_max_temp :: "rat option"
  avg_min_temp :: "rat option"
  total_precipitation :: "rat option"

record store =
  weather_records :: "WeatherRecord list"
  weather_stats :: "WeatherStats list"
  next_id :: nat

subsection \<open>The record parser (the body of the loop over lines)\<close>

text \<open>
  \<^verbatim>\<open>int(columns[i]) if columns[i] != '-9999' else None\<close>: the index is evaluated
  first (IndexError), then the text is compared with the sentinel's text, and only a
  different text is given to \<^verbatim>\<open>int\<close> (ValueError).
\<close>

definition numeric_field :: "string list \<Rightarrow> nat \<Rightarrow> error + int option" where
  "numeric_field columns i =
     (if i < length columns then
        (if columns ! i \<noteq> ''-9999'' then
           (case py_int (columns ! i) of Inl e \<Rightarrow> Inl e | Inr v \<Rightarrow> Inr (Some v))
         else Inr None)
      else Inl IndexError)"

definition columns_of :: "string \<Rightarrow> string list" where
  "columns_of line = py_split (CHR 0x09) (py_strip line)"

definition parse_line :: "nat \<Rightarrow> string \<Rightarrow> string \<Rightarrow> error + WeatherRecord" where
  "parse_line now station_id line =
     (let columns = columns_of line;
          d = hd columns
      in case numeric_field columns 1 of Inl e \<Rightarrow> Inl e | Inr mx \<Rightarrow>
        (case numeric_field columns 2 of Inl e \<Rightarrow> Inl e | Inr mn \<Rightarrow>
        (case numeric_field columns 3 of Inl e \<Rightarrow> Inl e | Inr pr \<Rightarrow>
           Inr \<lparr> date = d, max_temp = mx, min_temp = mn, precipitation = pr,
                 weather_station_id = station_id, ingestion_timestamp = now \<rparr>)))"




subsection \<open>The ingestion pipeline\<close>




subsection \<open>SQL comparisons and aggregates\<close>

text \<open>
  A nullable column is an \<open>option\<close>. Comparing with NULL gives unknown (None), and
  \<open>AND\<close> is Kleene's. \<open>GROUP BY\<close> puts NULLs of a column in one group, which is
  equality of \<open>option\<close> values. Aggregates skip NULLs and are NULL when no value is
  left.
\<close>

definition sql_eq :: "'a option \<Rightarrow> 'a option \<Rightarrow> bool option" where
  "sql_eq a b =
     (case a of None \<Rightarrow> None
      | Some x \<Rightarrow> (case b of None \<Rightarrow> None | Some y \<Rightarrow> Some (x = y)))"

definition sql_ne :: "'a option \<Rightarrow> 'a option \<Rightarrow> bool option" where
  "sql_ne a b =
     (case a of None \<Rightarrow> None
      | Some x \<Rightarrow> (case b of None \<Rightarrow> None | Some y \<Rightarrow> Some (x \<noteq> y)))"

definition sql_and :: "bool option \<Rightarrow> bool option \<Rightarrow> bool option" where
  "sql_and p q =
     (if p = Some False \<or> q = Some False then Some False
      else if p = Some True \<and> q = Some True then Some True
      else None)"

fun sql_max :: "nat list \<Rightarrow> nat option" where
  "sql_max [] = None"
| "sql_max (x # xs) = (case sql_max xs of None \<Rightarrow> Some x | Some m \<Rightarrow> Some (max x m))"

definition non_null :: "'a option list \<Rightarrow> 'a list" where
  "non_null vs = map the (filter (\<lambda>v. v \<noteq> None) vs)"

subsection \<open>Duplicate removal on the raw records (load\_data.py)\<close>

type_synonym record_key = "string \<times> int option \<times> int option \<times> int option \<times> string"

definition record_key :: "WeatherRecord \<Rightarrow> record_key" where
  "record_key w =
     (date w, max_temp w, min_temp w, precipitation w, weather_station_id w)"

text \<open>The grouped subquery: one row per group, with the group's latest timestamp.\<close>

definition latest_subquery :: "WeatherRecord list \<Rightarrow> (record_key \<times> nat option) list" where
  "latest_subquery rows =
     map (\<lambda>k. (k, sql_max (map ingestion_timestamp (filter (\<lambda>w. record_key w = k) rows))))
         (remdups (map record_key rows))"

text \<open>The join condition, column by column, as the query writes it.\<close>

definition record_join :: "WeatherRecord \<Rightarrow> record_key \<times> nat option \<Rightarrow> bool option" where
  "record_join w s =
     (case s of ((s_date, s_max_temp, s_min_temp, s_precipitation, s_station), s_latest) \<Rightarrow>
        sql_and (sql_eq (Some (date w)) (Some s_date))
       (sql_and (sql_eq (max_temp w) s_max_temp)
       (sql_and (sql_eq (min_temp w) s_min_temp)
       (sql_and (sql_eq (precipitation w) s_precipitation)
       (sql_and (sql_eq (Some (weather_station_id w)) (Some s_station))
                (sql_ne (Some (ingestion_timestamp w)) s_latest))))))"

definition record_duplicates :: "WeatherRecord list \<Rightarrow> WeatherRecord list" where
  "record_duplicates rows =
     [w. w \<leftarrow> rows, s \<leftarrow> latest_subquery rows, record_join w s = Some True]"

text \<open>
  \<^verbatim>\<open>remove_duplicates\<close> of load\_data.py: every row the join returned is deleted.
  The second component is \<^verbatim>\<open>duplicate_count\<close>.
\<close>

definition load_data_remove_duplicates :: "store \<Rightarrow> store \<times> nat" where
  "load_data_remove_duplicates st =
     (let duplicates = record_duplicates (weather_records st)
      in (st\<lparr>weather_records := filter (\<lambda>w. w \<notin> set duplicates) (weather_records st)\<rparr>,
          length duplicates))"

subsection \<open>The aggregation (calculate\_statistics.py)\<close>

type_synonym stats_values = "int \<times> string \<times> rat option \<times> rat option \<times> rat option"


text \<open>
  The store that runs the query is not part of the sources. Its floating-point
  operations, the order in which it visits the rows of the table and the order in which
  it returns the groups are the fields of an \<open>engine\<close>: \<open>float_div x d\<close> is the value of
  \<^verbatim>\<open>column / 10.0\<close>, \<open>float_avg\<close> and \<open>float_sum\<close> are \<^verbatim>\<open>avg\<close> and \<^verbatim>\<open>sum\<close>
  on the non-null values of a group in the order of the visit, and \<open>float_round\<close> is
  \<^verbatim>\<open>round(x, 2)\<close>. None of them is assumed to be exact.
\<close>

record engine =
  float_div :: "int \<Rightarrow> rat \<Rightarrow> rat"
  float_avg :: "rat list \<Rightarrow> rat"
  float_sum :: "rat list \<Rightarrow> rat"
  float_round :: "rat \<Rightarrow> rat"
  visit :: "WeatherRecord list \<Rightarrow> WeatherRecord list"
  group_order :: "(string \<times> string) list \<Rightarrow> (string \<times> string) list"










subsection \<open>Duplicate removal on the statistics (calculate\_statistics.py)\<close>

definition stats_key :: "WeatherStats \<Rightarrow> stats_values" where
  "stats_key r = (year r, station r, avg_max_temp r, avg_min_temp r, total_precipitation r)"

definition max_id_subquery :: "WeatherStats list \<Rightarrow> (stats_values \<times> nat option) list" where
  "max_id_subquery rows =
     map (\<lambda>k. (k, sql_max (map stats_id (filter (\<lambda>r. stats_key r = k) rows))))
         (remdups (map stats_key rows))"

definition stats_join :: "WeatherStats \<Rightarrow> stats_values \<times> nat option \<Rightarrow> bool option" where
  "stats_join r s =
     (case s of ((s_year, s_station, s_avg_max, s_avg_min, s_total), s_max_id) \<Rightarrow>
        sql_and (sql_eq (Some (year r)) (Some s_year))
       (sql_and (sql_eq (Some (station r)) (Some s_station))
       (sql_and (sql_eq (avg_max_temp r) s_avg_max)
       (sql_and (sql_eq (avg_min_temp r) s_avg_min)
       (sql_and (sql_eq (total_precipitation r) s_total)
                (sql_ne (Some (stats_id r)) s_max_id))))))"

definition stats_duplicates :: "WeatherStats list \<Rightarrow> WeatherStats list" where
  "stats_duplicates rows =
     [r. r \<leftarrow> rows, s \<leftarrow> max_id_subquery rows, stats_join r s = Some True]"

definition calculate_statistics_remove_duplicates :: "store \<Rightarrow> store \<times> nat" where
  "calculate_statistics_remove_duplicates st =
     (let duplicates = stats_duplicates (weather_stats st)
      in (st\<lparr>weather_stats := filter (\<lambda>r. r \<notin> set duplicates) (weather_stats st)\<rparr>,
          length duplicates))"

subsection \<open>Groups of duplicates\<close>

text \<open>
  Notions used to state what duplicate removal achieves. A record is complete when none
  of its nullable columns is NULL. The latest timestamp of a group of records and the
  greatest id of a group of statistics rows are taken over the rows with the given key.
\<close>

definition complete_record :: "WeatherRecord \<Rightarrow> bool" where
  "complete_record w =
     (max_temp w \<noteq> None \<and> min_temp w \<noteq> None \<and> precipitation w \<noteq> None)"

definition latest_in_group :: "WeatherRecord list \<Rightarrow> record_key \<Rightarrow> nat" where
  "latest_in_group rows k =
     Max (set (map ingestion_timestamp (filter (\<lambda>v. record_key v = k) rows)))"

definition complete_stats :: "WeatherStats \<Rightarrow> bool" where
  "complete_stats r =
     (avg_max_temp r \<noteq> None \<and> avg_min_temp r \<noteq> None \<and> total_precipitation r \<noteq> None)"

definition max_id_in_group :: "WeatherStats list \<Rightarrow> stats_values \<Rightarrow> nat" where
  "max_id_in_group rows k =
     Max (set (map stats_id (filter (\<lambda>v. stats_key v = k) rows)))"

subsection \<open>The yearly statistics\<close>

text \<open>
  The row that a group is to produce. Its year is the integer that the group's four
  characters denote. An aggregate is NULL when the group has no non-null value for the
  column; otherwise it is the engine's \<^verbatim>\<open>round(avg(value / d), 2)\<close> (or \<^verbatim>\<open>sum\<close>)
  over the non-null values, each divided by \<open>d\<close> first.
\<close>

definition stored_mean :: "engine \<Rightarrow> rat \<Rightarrow> int option list \<Rightarrow> rat option" where
  "stored_mean E d vs =
     (if non_null vs = [] then None
      else Some (float_round E (float_avg E (map (\<lambda>x. float_div E x d) (non_null vs)))))"

definition stored_total :: "engine \<Rightarrow> rat \<Rightarrow> int option list \<Rightarrow> rat option" where
  "stored_total E d vs =
     (if non_null vs = [] then None
      else Some (float_round E (float_sum E (map (\<lambda>x. float_div E x d) (non_null vs)))))"



text \<open>
  The aggregates in the specification's words, in exact arithmetic:
  \<open>round(mean(non-null values) / 10.0, 2)\<close> and \<open>round(sum(non-null values) / 100.0, 2)\<close>.
\<close>

definition spec_mean :: "(rat \<Rightarrow> rat) \<Rightarrow> rat \<Rightarrow> int option list \<Rightarrow> rat option" where
  "spec_mean round2 d vs =
     (if non_null vs = [] then None
      else Some (round2 (of_int (sum_list (non_null vs)) / of_nat (length (non_null vs)) / d)))"

definition spec_total :: "(rat \<Rightarrow> rat) \<Rightarrow> rat \<Rightarrow> int option list \<Rightarrow> rat option" where
  "spec_total round2 d vs =
     (if non_null vs = [] then None
      else Some (round2 (of_int (sum_list (non_null vs)) / d)))"





subsection \<open>Example inputs\<close>







definition empty_store :: store where
  "empty_store = \<lparr> weather_records = [], weather_stats = [], next_id = 0 \<rparr>"


definition null_record :: "nat \<Rightarrow> WeatherRecord" where
  "null_record now =
     \<lparr> date = ''20200101'', max_temp = None, min_temp = Some (- 50),
       precipitation = Some 0, weather_station_id = ''S'', ingestion_timestamp = now \<rparr>"

definition null_stats :: "nat \<Rightarrow> WeatherStats" where
  "null_stats i =
     \<lparr> stats_id = i, year = 2020, station = ''S'', avg_max_temp = None,
       avg_min_temp = Some (- 5), total_precipitation = Some 0 \<rparr>"

definition stats_2020 :: "nat \<Rightarrow> rat \<Rightarrow> WeatherStats" where
  "stats_2020 i mx =
     \<lparr> stats_id = i, year = 2020, station = ''S'', avg_max_temp = Some mx,
       avg_min_temp = Some (- 5), total_precipitation = Some 0 \<rparr>"



section \<open>The record parser\<close>




lemma numeric_field_short:
  "length columns \<le> i \<Longrightarrow> numeric_field columns i = Inl IndexError"
  by (simp add: numeric_field_def)

lemma numeric_field_bad:
  "i < length columns \<Longrightarrow> columns ! i \<noteq> ''-9999'' \<Longrightarrow> py_int (columns ! i) = Inl ValueError
     \<Longrightarrow> numeric_field columns i = Inl ValueError"
  by (simp add: numeric_field_def)



lemma numeric_field_sentinel:
  "i < length columns \<Longrightarrow> columns ! i = ''-9999'' \<Longrightarrow> numeric_field columns i = Inr None"
  by (simp add: numeric_field_def)

lemma numeric_field_other:
  "i < length columns \<Longrightarrow> columns ! i \<noteq> ''-9999'' \<Longrightarrow> py_int (columns ! i) = Inr v
     \<Longrightarrow> numeric_field columns i = Inr (Some v)"
  by (simp add: numeric_field_def)

text \<open>
  C5. The parser is to store null for every numeric field whose parsed value is the
  sentinel -9999. The code compares the text of the field with \<^verbatim>\<open>'-9999'\<close> before
  parsing it, so a field that spells the sentinel differently, such as the space-padded
  \<^verbatim>\<open>' -9999'\<close>, is parsed by \<^verbatim>\<open>int\<close> and the integer -9999 is stored. This
  theorem evaluates the parser on such a line with exactly four fields.
\<close>

theorem parse_line_padded_sentinel:
  "parse_line 0 ''USC00110072''
     (''19850101'' @ [CHR 0x09] @ '' -9999'' @ [CHR 0x09] @ ''  -128'' @ [CHR 0x09]
        @ ''    94'' @ [CHR 0x0A])
   = Inr \<lparr> date = ''19850101'', max_temp = Some (- 9999), min_temp = Some (- 128),
           precipitation = Some 94, weather_station_id = ''USC00110072'',
           ingestion_timestamp = 0 \<rparr>"
  by (simp add: parse_line_def columns_of_def py_strip_def py_isspace_def numeric_field_def
      py_int_def is_digit_def digit_val_def)














section \<open>The ingestion pipeline\<close>












section \<open>Duplicate removal on the raw records\<close>

lemma sql_max_eq: "sql_max xs = (if xs = [] then None else Some (Max (set xs)))"
proof (induction xs)
  case Nil
  then show ?case by simp
next
  case (Cons x xs)
  then show ?case by (cases "xs = []") (simp_all add: Max_insert del: Max.insert_not_elem)
qed

lemma sql_and_True: "sql_and p q = Some True \<longleftrightarrow> p = Some True \<and> q = Some True"
  by (auto simp: sql_and_def)

lemma sql_eq_True: "sql_eq a b = Some True \<longleftrightarrow> a \<noteq> None \<and> a = b"
  by (auto simp: sql_eq_def split: option.splits)

lemma sql_ne_True: "sql_ne (Some x) m = Some True \<longleftrightarrow> (\<exists>y. m = Some y \<and> x \<noteq> y)"
  by (auto simp: sql_ne_def split: option.splits)

lemma record_join_True:
  "record_join w (k, m) = Some True \<longleftrightarrow>
     complete_record w \<and> record_key w = k \<and> (\<exists>t. m = Some t \<and> ingestion_timestamp w \<noteq> t)"
  by (cases k)
     (auto simp: record_join_def sql_and_True sql_eq_True sql_ne_True complete_record_def
       record_key_def)

lemma record_duplicates_iff:
  "w \<in> set (record_duplicates rows) \<longleftrightarrow>
     w \<in> set rows \<and> complete_record w \<and>
     ingestion_timestamp w \<noteq> latest_in_group rows (record_key w)"
proof -
  have "w \<in> set (record_duplicates rows) \<longleftrightarrow>
     w \<in> set rows \<and> (\<exists>k \<in> set (map record_key rows).
        record_join w (k, sql_max (map ingestion_timestamp
            (filter (\<lambda>v. record_key v = k) rows))) = Some True)"
    by (auto simp: record_duplicates_def latest_subquery_def)
  also have "\<dots> \<longleftrightarrow> w \<in> set rows \<and> complete_record w \<and>
     ingestion_timestamp w \<noteq> latest_in_group rows (record_key w)"
  proof (cases "w \<in> set rows")
    case True
    then have ne: "filter (\<lambda>v. record_key v = record_key w) rows \<noteq> []"
      by (auto simp: filter_empty_conv)
    show ?thesis
      using True ne
      by (auto simp: record_join_True sql_max_eq latest_in_group_def)
  next
    case False
    then show ?thesis by simp
  qed
  finally show ?thesis .
qed

lemma group_max_stable:
  fixes tb :: "'r \<Rightarrow> nat" and key :: "'r \<Rightarrow> 'k"
  assumes cong: "\<And>u v. key u = key v \<Longrightarrow> c u = c v"
      and r: "r \<in> set rows" "c r" "tb r = Max (tb ` {v \<in> set rows. key v = key r})"
  shows "Max (tb ` {v \<in> set (filter (\<lambda>w. \<not> (c w \<and>
              tb w \<noteq> Max (tb ` {v \<in> set rows. key v = key w}))) rows). key v = key r})
         = tb r"
proof -
  let ?M = "Max (tb ` {v \<in> set rows. key v = key r})"
  let ?G = "{v \<in> set (filter (\<lambda>w. \<not> (c w \<and>
              tb w \<noteq> Max (tb ` {v \<in> set rows. key v = key w}))) rows). key v = key r}"
  have a: "tb v = tb r" if "v \<in> ?G" for v
  proof -
    from that have "key v = key r" by simp
    then have "c v" using cong r(2) by blast
    with that \<open>key v = key r\<close> have "tb v = ?M" by auto
    then show ?thesis using r(3) by simp
  qed
  have b: "r \<in> ?G" using r by simp
  from a b have "tb ` ?G = {tb r}" by blast
  then show ?thesis by (simp only: Max_singleton)
qed

lemma complete_record_cong:
  "record_key u = record_key v \<Longrightarrow> complete_record u = complete_record v"
  by (simp add: record_key_def complete_record_def)

lemma record_duplicates_second_run:
  "record_duplicates (filter (\<lambda>w. w \<notin> set (record_duplicates rows)) rows) = []"
proof -
  let ?keep = "\<lambda>w. \<not> (complete_record w \<and>
      ingestion_timestamp w \<noteq> Max (ingestion_timestamp ` {v \<in> set rows. record_key v = record_key w}))"
  have eq: "filter (\<lambda>w. w \<notin> set (record_duplicates rows)) rows = filter ?keep rows"
    by (rule filter_cong) (auto simp: record_duplicates_iff latest_in_group_def)
  have "w \<notin> set (record_duplicates (filter ?keep rows))" for w
  proof
    assume "w \<in> set (record_duplicates (filter ?keep rows))"
    then have w: "w \<in> set rows" "?keep w" "complete_record w"
      and d: "ingestion_timestamp w \<noteq>
         Max (ingestion_timestamp ` {v \<in> set (filter ?keep rows). record_key v = record_key w})"
      by (auto simp: record_duplicates_iff latest_in_group_def)
    from w have "ingestion_timestamp w =
        Max (ingestion_timestamp ` {v \<in> set rows. record_key v = record_key w})"
      by simp
    from group_max_stable [of record_key complete_record w rows ingestion_timestamp,
        OF complete_record_cong w(1) w(3) this] d
    show False by simp
  qed
  then show ?thesis
    unfolding eq by (meson last_in_set)
qed

text \<open>
  What one run keeps: every record with a NULL column, and of the complete records
  those that carry the latest timestamp of their group.
\<close>

lemma record_kept_iff:
  "w \<in> set (weather_records (fst (load_data_remove_duplicates st))) \<longleftrightarrow>
     w \<in> set (weather_records st) \<and>
     (complete_record w \<longrightarrow>
        ingestion_timestamp w = latest_in_group (weather_records st) (record_key w))"
  by (auto simp: load_data_remove_duplicates_def Let_def record_duplicates_iff)

text \<open>
  C9. A record whose \<open>max_temp\<close>, \<open>min_temp\<close> or \<open>precipitation\<close> is NULL satisfies
  the join condition with no row of the subquery, so it is not among the duplicates and
  is still in the table after the run, whatever other records the table holds (also a
  record equal on all business fields with a later timestamp, as in the witness).
\<close>

theorem null_record_never_deleted:
  assumes "w \<in> set (weather_records st)"
      and "max_temp w = None \<or> min_temp w = None \<or> precipitation w = None"
  shows "(\<forall>s. record_join w s \<noteq> Some True) \<and>
         w \<notin> set (record_duplicates (weather_records st)) \<and>
         w \<in> set (weather_records (fst (load_data_remove_duplicates st)))"
proof -
  from assms(2) have n: "\<not> complete_record w"
    by (auto simp: complete_record_def)
  have "record_join w s \<noteq> Some True" for s
    using n by (cases s) (simp add: record_join_True)
  moreover have "w \<notin> set (record_duplicates (weather_records st))"
    using n by (simp add: record_duplicates_iff)
  moreover have "w \<in> set (weather_records (fst (load_data_remove_duplicates st)))"
    using n assms(1) by (simp add: record_kept_iff)
  ultimately show ?thesis by blast
qed

theorem null_record_never_deleted_witness:
  "null_record 1 \<in> set (weather_records (empty_store\<lparr>weather_records := [null_record 1, null_record 2]\<rparr>)) \<and>
   max_temp (null_record 1) = None \<and>
   record_key (null_record 1) = record_key (null_record 2) \<and>
   ingestion_timestamp (null_record 1) < ingestion_timestamp (null_record 2) \<and>
   null_record 1 \<in> set (weather_records (fst (load_data_remove_duplicates
       (empty_store\<lparr>weather_records := [null_record 1, null_record 2]\<rparr>))))"
proof -
  let ?st = "empty_store\<lparr>weather_records := [null_record 1, null_record 2]\<rparr>"
  have h1: "null_record 1 \<in> set (weather_records ?st)"
    by simp
  have h2: "max_temp (null_record 1) = None \<or> min_temp (null_record 1) = None
      \<or> precipitation (null_record 1) = None"
    by (simp add: null_record_def)
  show ?thesis
    using null_record_never_deleted [OF h1 h2]
    by (simp add: null_record_def record_key_def)
qed

text \<open>
  C1. Each group of records equal on (date, max\_temp, min\_temp, precipitation,
  weather\_station\_id), NULLs grouped together, is to keep only its latest member.
  On a group with a NULL column the code deletes nothing: the two records below differ
  only in their timestamps and both are kept, with a deletion count of 0.
\<close>

theorem null_duplicates_not_removed:
  "load_data_remove_duplicates
     \<lparr> weather_records = [null_record 1, null_record 2], weather_stats = [], next_id = 0 \<rparr>
   = (\<lparr> weather_records = [null_record 1, null_record 2], weather_stats = [], next_id = 0 \<rparr>,
      0)"
  by (simp add: load_data_remove_duplicates_def record_duplicates_def latest_subquery_def
      record_join_def record_key_def null_record_def sql_and_def sql_eq_def sql_ne_def)

section \<open>Duplicate removal on the statistics\<close>

lemma stats_join_True:
  "stats_join r (k, m) = Some True \<longleftrightarrow>
     complete_stats r \<and> stats_key r = k \<and> (\<exists>t. m = Some t \<and> stats_id r \<noteq> t)"
  by (cases k)
     (auto simp: stats_join_def sql_and_True sql_eq_True sql_ne_True complete_stats_def
       stats_key_def)

lemma stats_duplicates_iff:
  "r \<in> set (stats_duplicates rows) \<longleftrightarrow>
     r \<in> set rows \<and> complete_stats r \<and>
     stats_id r \<noteq> max_id_in_group rows (stats_key r)"
proof -
  have "r \<in> set (stats_duplicates rows) \<longleftrightarrow>
     r \<in> set rows \<and> (\<exists>k \<in> set (map stats_key rows).
        stats_join r (k, sql_max (map stats_id
            (filter (\<lambda>v. stats_key v = k) rows))) = Some True)"
    by (auto simp: stats_duplicates_def max_id_subquery_def)
  also have "\<dots> \<longleftrightarrow> r \<in> set rows \<and> complete_stats r \<and>
     stats_id r \<noteq> max_id_in_group rows (stats_key r)"
  proof (cases "r \<in> set rows")
    case True
    then have ne: "filter (\<lambda>v. stats_key v = stats_key r) rows \<noteq> []"
      by (auto simp: filter_empty_conv)
    show ?thesis
      using True ne
      by (auto simp: stats_join_True sql_max_eq max_id_in_group_def)
  next
    case False
    then show ?thesis by simp
  qed
  finally show ?thesis .
qed

lemma complete_stats_cong:
  "stats_key u = stats_key v \<Longrightarrow> complete_stats u = complete_stats v"
  by (simp add: stats_key_def complete_stats_def)

lemma stats_duplicates_second_run:
  "stats_duplicates (filter (\<lambda>r. r \<notin> set (stats_duplicates rows)) rows) = []"
proof -
  let ?keep = "\<lambda>w. \<not> (complete_stats w \<and>
      stats_id w \<noteq> Max (stats_id ` {v \<in> set rows. stats_key v = stats_key w}))"
  have eq: "filter (\<lambda>r. r \<notin> set (stats_duplicates rows)) rows = filter ?keep rows"
    by (rule filter_cong) (auto simp: stats_duplicates_iff max_id_in_group_def)
  have "w \<notin> set (stats_duplicates (filter ?keep rows))" for w
  proof
    assume "w \<in> set (stats_duplicates (filter ?keep rows))"
    then have w: "w \<in> set rows" "?keep w" "complete_stats w"
      and d: "stats_id w \<noteq>
         Max (stats_id ` {v \<in> set (filter ?keep rows). stats_key v = stats_key w})"
      by (auto simp: stats_duplicates_iff max_id_in_group_def)
    from w have "stats_id w = Max (stats_id ` {v \<in> set rows. stats_key v = stats_key w})"
      by simp
    from group_max_stable [of stats_key complete_stats w rows stats_id,
        OF complete_stats_cong w(1) w(3) this] d
    show False by simp
  qed
  then show ?thesis
    unfolding eq by (meson last_in_set)
qed

lemma stats_kept_iff:
  "r \<in> set (weather_stats (fst (calculate_statistics_remove_duplicates st))) \<longleftrightarrow>
     r \<in> set (weather_stats st) \<and>
     (complete_stats r \<longrightarrow> stats_id r = max_id_in_group (weather_stats st) (stats_key r))"
  by (auto simp: calculate_statistics_remove_duplicates_def Let_def stats_duplicates_iff)

text \<open>
  C7. A second run of either duplicate removal, directly after the first, finds no
  duplicate: it deletes nothing, its count is 0 and the store is unchanged. This holds
  for every store.
\<close>

theorem remove_duplicates_idempotent:
  "load_data_remove_duplicates (fst (load_data_remove_duplicates st))
     = (fst (load_data_remove_duplicates st), 0) \<and>
   calculate_statistics_remove_duplicates (fst (calculate_statistics_remove_duplicates st))
     = (fst (calculate_statistics_remove_duplicates st), 0)"
  by (simp add: load_data_remove_duplicates_def calculate_statistics_remove_duplicates_def
      Let_def record_duplicates_second_run stats_duplicates_second_run)

text \<open>
  C3. Each group of statistics rows equal on (year, station, avg\_max\_temp,
  avg\_min\_temp, total\_precipitation) is to keep only the row with the greatest id.
  On a group with a NULL aggregate the code deletes nothing: the two rows below (a year
  of a station for which every max\_temp is missing, aggregated twice) differ only in
  their ids and both are kept.
\<close>

theorem null_stats_not_removed:
  "calculate_statistics_remove_duplicates
     \<lparr> weather_records = [], weather_stats = [null_stats 1, null_stats 2], next_id = 3 \<rparr>
   = (\<lparr> weather_records = [], weather_stats = [null_stats 1, null_stats 2], next_id = 3 \<rparr>,
      0)"
  by (simp add: calculate_statistics_remove_duplicates_def stats_duplicates_def
      max_id_subquery_def stats_join_def stats_key_def null_stats_def sql_and_def sql_eq_def
      sql_ne_def)

lemma same_value_at_most_one:
  assumes "distinct (map f xs)" and "\<forall>x \<in> set xs. f x = m"
  shows "length xs \<le> 1"
proof (cases xs)
  case Nil
  then show ?thesis by simp
next
  case (Cons a ys)
  with assms show ?thesis by (cases ys) auto
qed

text \<open>
  C4 (as amended). With unique ids, after the run at most one row is left for each
  value tuple (year, station, avg\_max\_temp, avg\_min\_temp, total\_precipitation)
  whose three aggregates are not NULL.
\<close>

theorem complete_stats_at_most_one:
  assumes "distinct (map stats_id (weather_stats st))"
      and "mx \<noteq> None" and "mn \<noteq> None" and "pr \<noteq> None"
  shows "length (filter (\<lambda>r. stats_key r = (y, sid, mx, mn, pr))
           (weather_stats (fst (calculate_statistics_remove_duplicates st)))) \<le> 1"
proof -
  let ?rows = "weather_stats st"
  let ?k = "(y, sid, mx, mn, pr)"
  let ?out = "filter (\<lambda>r. stats_key r = ?k)
           (weather_stats (fst (calculate_statistics_remove_duplicates st)))"
  have out: "?out = filter (\<lambda>r. stats_key r = ?k)
      (filter (\<lambda>r. r \<notin> set (stats_duplicates ?rows)) ?rows)"
    by (simp add: calculate_statistics_remove_duplicates_def Let_def)
  have "distinct (map stats_id ?out)"
    unfolding out using assms(1) by (simp add: distinct_map_filter)
  moreover have "\<forall>r \<in> set ?out. stats_id r = max_id_in_group ?rows ?k"
  proof
    fix r assume r: "r \<in> set ?out"
    then have k: "stats_key r = ?k" by simp
    then have "complete_stats r"
      using assms(2-4) by (simp add: stats_key_def complete_stats_def)
    moreover from r have "r \<in> set (weather_stats (fst (calculate_statistics_remove_duplicates st)))"
      by simp
    ultimately show "stats_id r = max_id_in_group ?rows ?k"
      using k by (simp add: stats_kept_iff)
  qed
  ultimately show ?thesis by (rule same_value_at_most_one)
qed

theorem complete_stats_at_most_one_witness:
  "distinct (map stats_id [stats_2020 1 10, stats_2020 2 10, stats_2020 3 15]) \<and>
   Some (10 :: rat) \<noteq> None \<and> Some (- 5 :: rat) \<noteq> None \<and> Some (0 :: rat) \<noteq> None \<and>
   length (filter (\<lambda>r. stats_key r = (2020, ''S'', Some 10, Some (- 5), Some 0))
     (weather_stats (fst (calculate_statistics_remove_duplicates
        (empty_store\<lparr>weather_stats := [stats_2020 1 10, stats_2020 2 10, stats_2020 3 15]\<rparr>)))))
     \<le> 1"
proof -
  let ?st = "empty_store\<lparr>weather_stats := [stats_2020 1 10, stats_2020 2 10, stats_2020 3 15]\<rparr>"
  have h: "distinct (map stats_id (weather_stats ?st))"
    by (simp add: stats_2020_def)
  show ?thesis
    using h complete_stats_at_most_one [OF h, of "Some 10" "Some (- 5)" "Some 0" 2020 "''S''"]
    by simp
qed

text \<open>
  The claim as first stated, at most one row for each (year, station), fails: two rows
  of one year and station whose aggregates differ are both kept.
\<close>

theorem differing_stats_both_kept:
  "calculate_statistics_remove_duplicates
     \<lparr> weather_records = [], weather_stats = [stats_2020 1 10, stats_2020 2 15], next_id = 3 \<rparr>
   = (\<lparr> weather_records = [], weather_stats = [stats_2020 1 10, stats_2020 2 15],
        next_id = 3 \<rparr>, 0) \<and>
   year (stats_2020 1 10) = year (stats_2020 2 15) \<and>
   station (stats_2020 1 10) = station (stats_2020 2 15)"
  by (simp add: calculate_statistics_remove_duplicates_def stats_duplicates_def
      max_id_subquery_def stats_join_def stats_key_def stats_2020_def sql_and_def sql_eq_def
      sql_ne_def)

section \<open>The aggregation\<close>




lemma sum_list_scaled:
  "sum_list (map (\<lambda>x. of_int x / d) xs) = (of_int (sum_list xs) :: rat) / d"
  by (induction xs) (simp_all add: add_divide_distrib)

text \<open>
  Where the engine's division, mean and sum are exact, the stored aggregates are the
  ones the specification words: the mean of the values divided by ten is the mean
  divided by ten.
\<close>

lemma exact_stored_mean:
  assumes "\<And>x d. float_div E x d = of_int x / d"
      and "\<And>xs. float_avg E xs = sum_list xs / of_nat (length xs)"
  shows "stored_mean E d vs = spec_mean (float_round E) d vs"
  by (simp add: stored_mean_def spec_mean_def assms sum_list_scaled mult.commute)

lemma exact_stored_total:
  assumes "\<And>x d. float_div E x d = of_int x / d"
      and "\<And>xs. float_sum E xs = sum_list xs"
  shows "stored_total E d vs = spec_total (float_round E) d vs"
  by (simp add: stored_total_def spec_total_def assms sum_list_scaled)







end
